theory Spec2Isabelle
  imports Main "HOL-Library.AList"
begin

section \<open>Data model of \<open>telethon/events/callbackquery.py\<close>\<close>

subsection \<open>Telegram objects the event handles\<close>

text \<open>
  Peers, input peers and entities are the TL objects the source passes around.
  Only \<open>InputPeerUser\<close> and \<open>InputPeerChannel\<close> carry an \<open>access_hash\<close> attribute.
  Every TL object is truthy in Python, so \<open>not x\<close> on an optional object is the
  test \<open>x is None\<close>.
\<close>

datatype peer = PeerUser int | PeerChat int | PeerChannel int

datatype input_peer =
    InputPeerEmpty
  | InputPeerSelf
  | InputPeerChat int
  | InputPeerUser int int
  | InputPeerChannel int int

datatype entity = User int int | Chat int | Channel int int

datatype pyval = PNone | PBool bool | PInt int | PStr string

type_synonym kwargs = "(string \<times> pyval) list"

record message =
  m_id :: int
  m_sender :: "entity option"
  m_input_sender :: "input_peer option"

record callback_query =
  query_id :: int
  user_id :: int
  peer :: peer
  msg_id :: int
  data :: string

datatype update =
    UpdateBotCallbackQuery callback_query "int \<rightharpoonup> entity"
  | UpdateNewMessage message "int \<rightharpoonup> entity"
  | UpdateOther string "int \<rightharpoonup> entity"

subsection \<open>Exceptions, requests and the event\<close>

datatype error = ValueError | TypeError | RPCError

record answer_args =
  a_message :: "string option"
  a_cache_time :: int
  a_url :: "string option"
  a_alert :: bool

text \<open>\<open>SetBotCallbackAnswerRequest(query_id, cache_time, alert, message, url)\<close>.\<close>

datatype request =
  SetBotCallbackAnswerRequest int int bool "string option" "string option"

text \<open>
  \<open>CallbackQuery.Event\<close>: the fields \<open>__init__\<close> assigns, the peer and message id
  it hands to the base initialiser, and the entity snapshot \<open>build\<close> stores.
\<close>

record event =
  chat_peer :: peer
  base_msg_id :: int
  query :: callback_query
  sender_id :: int
  input_sender :: "input_peer option"
  sender :: "entity option"
  message :: "message option"
  answered :: bool
  entities :: "int \<rightharpoonup> entity"

subsection \<open>Collaborators\<close>

text \<open>
  What the client, the session, the chat getter and \<open>utils\<close> answer when the event
  calls them. Each outcome is a returned value or a raised exception.
  \<open>get_input_peer\<close> is the outcome of \<open>utils.get_input_peer(self._chat)\<close>.
\<close>

record env =
  is_channel :: bool
  get_input_chat :: "error + input_peer option"
  get_messages :: "input_peer option \<Rightarrow> int \<Rightarrow> error + message option"
  get_input_peer :: "error + input_peer"
  session_get_input_entity :: "int \<Rightarrow> error + input_peer"
  invoke :: "request \<Rightarrow> error + bool"
  send_message :: "input_peer option \<Rightarrow> pyval list \<Rightarrow> kwargs \<Rightarrow> error + message"
  edit_message :: "input_peer option \<Rightarrow> int \<Rightarrow> pyval list \<Rightarrow> kwargs \<Rightarrow> error + message"
  delete_messages :: "input_peer option \<Rightarrow> int list \<Rightarrow> pyval list \<Rightarrow> kwargs \<Rightarrow> error + nat"

text \<open>
  The calls an operation issues, in order, each with the event as it stood when
  the call was issued.
\<close>

datatype call =
    CreateTaskAnswer answer_args
  | GetInputChat
  | GetMessages "input_peer option" int
  | SessionGetInputEntity int
  | Invoke request
  | SendMessage "input_peer option" "pyval list" kwargs
  | EditMessage "input_peer option" int "pyval list" kwargs
  | DeleteMessages "input_peer option" "int list" "pyval list" kwargs

type_synonym log = "(call \<times> event) list"

section \<open>The event\<close>

subsection \<open>Construction and accessors\<close>

text \<open>
  \<open>Event.__init__\<close>. The base initialiser receives \<open>query.peer\<close> and
  \<open>query.msg_id\<close>. The snapshot field belongs to the base class; it is empty
  here and \<open>build\<close> replaces it before the event is handed on.
\<close>

definition Event_init :: "callback_query \<Rightarrow> event" where
  "Event_init q =
     \<lparr> chat_peer = peer q, base_msg_id = msg_id q, query = q,
       sender_id = user_id q, input_sender = None, sender = None,
       message = None, answered = False, entities = Map.empty \<rparr>"

definition event_id :: "event \<Rightarrow> int" where
  "event_id ev = query_id (query ev)"

definition message_id :: "event \<Rightarrow> int" where
  "message_id ev = msg_id (query ev)"

definition event_data :: "event \<Rightarrow> string" where
  "event_data ev = data (query ev)"

subsection \<open>\<open>get_message\<close>\<close>

text \<open>
  The cached message is returned at once. Otherwise the input chat is resolved
  for a channel only, the message is fetched by id and stored (also when the
  client returns \<open>None\<close>). A \<open>ValueError\<close> from either call ends the method with
  \<open>None\<close>; any other exception propagates.
\<close>

definition get_message :: "env \<Rightarrow> event \<Rightarrow> (error + message option) \<times> event \<times> log" where
  "get_message env ev =
     (case message ev of
        Some m \<Rightarrow> (Inr (Some m), ev, [])
      | None \<Rightarrow>
          (case (if is_channel env
                 then (get_input_chat env, [(GetInputChat, ev)])
                 else (Inr None, [])) of
             (Inl ValueError, l) \<Rightarrow> (Inr None, ev, l)
           | (Inl e, l) \<Rightarrow> (Inl e, ev, l)
           | (Inr chat, l) \<Rightarrow>
               (let l' = l @ [(GetMessages chat (msg_id (query ev)), ev)] in
                case get_messages env chat (msg_id (query ev)) of
                  Inl ValueError \<Rightarrow> (Inr None, ev, l')
                | Inl e \<Rightarrow> (Inl e, ev, l')
                | Inr m \<Rightarrow> (Inr m, ev\<lparr>message := m\<rparr>, l'))))"

subsection \<open>\<open>answer\<close>\<close>

definition answer_request :: "event \<Rightarrow> answer_args \<Rightarrow> request" where
  "answer_request ev a =
     SetBotCallbackAnswerRequest (query_id (query ev)) (a_cache_time a) (a_alert a)
       (a_message a) (a_url a)"

text \<open>
  An answered event returns \<open>None\<close> without any call. Otherwise the flag is set,
  and then the request is sent; its result is returned and its exception
  propagates.
\<close>

definition answer :: "env \<Rightarrow> answer_args \<Rightarrow> event \<Rightarrow> (error + bool option) \<times> event \<times> log" where
  "answer env a ev =
     (if answered ev then (Inr None, ev, [])
      else
        (let ev' = ev\<lparr>answered := True\<rparr>;
             req = answer_request ev' a in
         case invoke env req of
           Inl e \<Rightarrow> (Inl e, ev', [(Invoke req, ev')])
         | Inr r \<Rightarrow> (Inr (Some r), ev', [(Invoke req, ev')])))"

text \<open>The defaults of \<open>answer\<close>: no message, \<open>cache_time=0\<close>, no url, no alert.\<close>

definition default_answer :: answer_args where
  "default_answer = \<lparr> a_message = None, a_cache_time = 0, a_url = None, a_alert = False \<rparr>"

subsection \<open>\<open>_refetch_sender\<close>\<close>

text \<open>
  \<open>getattr(p, 'access_hash', True)\<close>: the attribute where the input peer has one.
  \<open>lacks_access_hash\<close> is the test \<open>not getattr(p, 'access_hash', True)\<close>: a peer
  without the attribute yields \<open>True\<close> and passes, a peer with hash \<open>0\<close> fails.
\<close>

fun getattr_access_hash :: "input_peer \<Rightarrow> int option" where
  "getattr_access_hash (InputPeerUser _ h) = Some h"
| "getattr_access_hash (InputPeerChannel _ h) = Some h"
| "getattr_access_hash _ = None"

definition lacks_access_hash :: "input_peer \<Rightarrow> bool" where
  "lacks_access_hash p = (case getattr_access_hash p of None \<Rightarrow> False | Some h \<Rightarrow> h = 0)"

text \<open>
  The sender is read from the snapshot; without it the method returns. The input
  sender is taken from the chat, and where its hash is missing the session is
  asked; on the session's \<open>ValueError\<close> the message is fetched and, when there is
  one, its sender and input sender are adopted.
\<close>

definition refetch_sender :: "env \<Rightarrow> event \<Rightarrow> (error + unit) \<times> event \<times> log" where
  "refetch_sender env ev =
     (let ev1 = ev\<lparr>sender := entities ev (sender_id ev)\<rparr> in
      case sender ev1 of
        None \<Rightarrow> (Inr (), ev1, [])
      | Some _ \<Rightarrow>
          (case get_input_peer env of
             Inl e \<Rightarrow> (Inl e, ev1, [])
           | Inr p \<Rightarrow>
               (let ev2 = ev1\<lparr>input_sender := Some p\<rparr> in
                if lacks_access_hash p then
                  (let l = [(SessionGetInputEntity (sender_id ev2), ev2)] in
                   case session_get_input_entity env (sender_id ev2) of
                     Inr p' \<Rightarrow> (Inr (), ev2\<lparr>input_sender := Some p'\<rparr>, l)
                   | Inl ValueError \<Rightarrow>
                       (case get_message env ev2 of
                          (Inl e, ev3, lm) \<Rightarrow> (Inl e, ev3, l @ lm)
                        | (Inr None, ev3, lm) \<Rightarrow> (Inr (), ev3, l @ lm)
                        | (Inr (Some m), ev3, lm) \<Rightarrow>
                            (Inr (),
                             ev3\<lparr>sender := m_sender m, input_sender := m_input_sender m\<rparr>,
                             l @ lm))
                   | Inl e \<Rightarrow> (Inl e, ev2, l))
                else (Inr (), ev2, []))))"

subsection \<open>\<open>respond\<close>, \<open>reply\<close>, \<open>edit\<close>, \<open>delete\<close>\<close>

text \<open>
  Each action first creates the task \<open>self.answer()\<close>, which runs on its own later,
  then awaits the input chat and issues its own request, whose outcome is the
  outcome of the action.
\<close>

definition respond :: "env \<Rightarrow> pyval list \<Rightarrow> kwargs \<Rightarrow> event \<Rightarrow> (error + message) \<times> event \<times> log" where
  "respond env args kw ev =
     (let l = [(CreateTaskAnswer default_answer, ev), (GetInputChat, ev)] in
      case get_input_chat env of
        Inl e \<Rightarrow> (Inl e, ev, l)
      | Inr chat \<Rightarrow> (send_message env chat args kw, ev, l @ [(SendMessage chat args kw, ev)]))"

definition reply :: "env \<Rightarrow> pyval list \<Rightarrow> kwargs \<Rightarrow> event \<Rightarrow> (error + message) \<times> event \<times> log" where
  "reply env args kw ev =
     (let l = [(CreateTaskAnswer default_answer, ev), (GetInputChat, ev)];
          kw' = AList.update ''reply_to'' (PInt (msg_id (query ev))) kw in
      case get_input_chat env of
        Inl e \<Rightarrow> (Inl e, ev, l)
      | Inr chat \<Rightarrow> (send_message env chat args kw', ev, l @ [(SendMessage chat args kw', ev)]))"

definition edit :: "env \<Rightarrow> pyval list \<Rightarrow> kwargs \<Rightarrow> event \<Rightarrow> (error + message) \<times> event \<times> log" where
  "edit env args kw ev =
     (let l = [(CreateTaskAnswer default_answer, ev), (GetInputChat, ev)] in
      case get_input_chat env of
        Inl e \<Rightarrow> (Inl e, ev, l)
      | Inr chat \<Rightarrow>
          (edit_message env chat (msg_id (query ev)) args kw, ev,
           l @ [(EditMessage chat (msg_id (query ev)) args kw, ev)]))"

definition delete :: "env \<Rightarrow> pyval list \<Rightarrow> kwargs \<Rightarrow> event \<Rightarrow> (error + nat) \<times> event \<times> log" where
  "delete env args kw ev =
     (let l = [(CreateTaskAnswer default_answer, ev), (GetInputChat, ev)] in
      case get_input_chat env of
        Inl e \<Rightarrow> (Inl e, ev, l)
      | Inr chat \<Rightarrow>
          (delete_messages env chat [msg_id (query ev)] args kw, ev,
           l @ [(DeleteMessages chat [msg_id (query ev)] args kw, ev)]))"

section \<open>The builder\<close>

text \<open>
  \<open>CallbackQuery.build\<close>: only an \<open>UpdateBotCallbackQuery\<close> makes an event, which
  receives the update's entities and goes through the builder's filter
  (\<open>_filter_event\<close>, a parameter here). Any other update returns \<open>None\<close>.
\<close>

definition build :: "(event \<Rightarrow> error + event option) \<Rightarrow> update \<Rightarrow> error + event option" where
  "build filter_event upd =
     (case upd of
        UpdateBotCallbackQuery q ents \<Rightarrow> filter_event ((Event_init q)\<lparr>entities := ents\<rparr>)
      | _ \<Rightarrow> Inr None)"

section \<open>Sequences of operations on one event\<close>

text \<open>
  The task an action creates runs \<open>self.answer()\<close> when the loop next gets
  control: before the action returns where the client suspends, later otherwise.
  An action step carries that outcome as a flag; a task that runs later is an
  \<open>OpAnswer\<close> step of its own. The action neither reads nor writes the event's
  fields, so the event is the same wherever within the action the task runs.
\<close>

datatype op =
    OpGetMessage env
  | OpRefetchSender env
  | OpAnswer env answer_args
  | OpRespond env bool "pyval list" kwargs
  | OpReply env bool "pyval list" kwargs
  | OpEdit env bool "pyval list" kwargs
  | OpDelete env bool "pyval list" kwargs

definition run_created_task :: "env \<Rightarrow> bool \<Rightarrow> event \<Rightarrow> event" where
  "run_created_task env task_ran ev = (if task_ran then fst (snd (answer env default_answer ev)) else ev)"

text \<open>The event after an operation, whether it returned or raised.\<close>

fun apply_op :: "op \<Rightarrow> event \<Rightarrow> event" where
  "apply_op (OpGetMessage env) ev = fst (snd (get_message env ev))"
| "apply_op (OpRefetchSender env) ev = fst (snd (refetch_sender env ev))"
| "apply_op (OpAnswer env a) ev = fst (snd (answer env a ev))"
| "apply_op (OpRespond env task_ran args kw) ev =
     run_created_task env task_ran (fst (snd (respond env args kw ev)))"
| "apply_op (OpReply env task_ran args kw) ev =
     run_created_task env task_ran (fst (snd (reply env args kw ev)))"
| "apply_op (OpEdit env task_ran args kw) ev =
     run_created_task env task_ran (fst (snd (edit env args kw ev)))"
| "apply_op (OpDelete env task_ran args kw) ev =
     run_created_task env task_ran (fst (snd (delete env args kw ev)))"

fun run_ops :: "op list \<Rightarrow> event \<Rightarrow> event" where
  "run_ops [] ev = ev"
| "run_ops (x # xs) ev = run_ops xs (apply_op x ev)"

section \<open>Outcome classes and a concrete scenario\<close>

text \<open>
  A collaborator outcome that is a value or the lookup failure \<open>ValueError\<close>, the
  one exception the event catches.
\<close>

definition lookup_failure_only :: "error + 'a \<Rightarrow> bool" where
  "lookup_failure_only r = (case r of Inl e \<Rightarrow> e = ValueError | Inr _ \<Rightarrow> True)"

text \<open>
  The scenario used to run the operations: query 42 on message 7 in chat 100,
  clicked by user 55, whose snapshot entry has no access hash.
\<close>

definition query0 :: callback_query where
  "query0 = \<lparr> query_id = 42, user_id = 55, peer = PeerChat 100, msg_id = 7, data = ''buy'' \<rparr>"

definition event0 :: event where
  "event0 = (Event_init query0)\<lparr>entities := [55 \<mapsto> User 55 0]\<rparr>"

definition message0 :: message where
  "message0 = \<lparr> m_id = 7, m_sender = Some (User 55 999),
                m_input_sender = Some (InputPeerUser 55 999) \<rparr>"

definition sent0 :: message where
  "sent0 = \<lparr> m_id = 8, m_sender = None, m_input_sender = None \<rparr>"

text \<open>The session does not know the sender; the message can be fetched.\<close>

definition env_ok :: env where
  "env_ok =
     \<lparr> is_channel = False,
       get_input_chat = Inr (Some (InputPeerChat 100)),
       get_messages = (\<lambda>chat i. Inr (if i = 7 then Some message0 else None)),
       get_input_peer = Inr (InputPeerUser 55 0),
       session_get_input_entity = (\<lambda>i. Inl ValueError),
       invoke = (\<lambda>r. Inr True),
       send_message = (\<lambda>chat args kw. Inr sent0),
       edit_message = (\<lambda>chat i args kw. Inr sent0),
       delete_messages = (\<lambda>chat ids args kw. Inr (length ids)) \<rparr>"

text \<open>The session knows the sender by now.\<close>

definition env_cached :: env where
  "env_cached = env_ok\<lparr>session_get_input_entity := (\<lambda>i. Inr (InputPeerUser 55 999))\<rparr>"

text \<open>The message is gone and the transport fails.\<close>

definition env_missing :: env where
  "env_missing =
     env_ok\<lparr>get_messages := (\<lambda>chat i. Inl ValueError), invoke := (\<lambda>r. Inl RPCError)\<rparr>"

text \<open>The chat context yields an input peer with an access hash.\<close>

definition env_hash :: env where
  "env_hash = env_ok\<lparr>get_input_peer := Inr (InputPeerUser 55 999)\<rparr>"

text \<open>The chat is not in the snapshot, so \<open>utils.get_input_peer\<close> is given \<open>None\<close>.\<close>

definition env_nochat :: env where
  "env_nochat = env_ok\<lparr>get_input_peer := Inl TypeError\<rparr>"

text \<open>The fetch fails in the transport.\<close>

definition env_rpc :: env where
  "env_rpc = env_ok\<lparr>get_messages := (\<lambda>chat i. Inl RPCError)\<rparr>"

text \<open>A builder filter that lets every event through.\<close>

definition filter_all :: "event \<Rightarrow> error + event option" where
  "filter_all ev = Inr (Some ev)"

section \<open>The acknowledgment latch\<close>

lemma answered_apply_op: "answered ev \<Longrightarrow> answered (apply_op x ev)"
  by (cases x)
     (auto simp: get_message_def refetch_sender_def answer_def respond_def reply_def edit_def
        delete_def run_created_task_def Let_def
        split: option.splits sum.splits error.splits prod.splits if_splits)

lemma answered_run_ops: "answered ev \<Longrightarrow> answered (run_ops xs ev)"
  by (induction xs arbitrary: ev) (simp_all add: answered_apply_op)

text \<open>
  Claim C1. The first \<open>answer\<close> on an event sets the flag and issues exactly one
  request, \<open>SetBotCallbackAnswerRequest\<close> with the query id, cache time, alert
  flag, message and url, and the flag is already set in the event at the time of
  that request. The flag is set whether the request returns or raises. Any later
  \<open>answer\<close> on that event returns \<open>None\<close> with no call at all, and the flag stays
  set through every later operation.
\<close>

theorem answer_one_shot_latch:
  assumes "\<not> answered ev"
  shows "fst (snd (answer env a ev)) = ev\<lparr>answered := True\<rparr>
       \<and> snd (snd (answer env a ev)) =
           [(Invoke (SetBotCallbackAnswerRequest (event_id ev) (a_cache_time a) (a_alert a)
                      (a_message a) (a_url a)), ev\<lparr>answered := True\<rparr>)]
       \<and> fst (answer env a ev) =
           (case invoke env (answer_request ev a) of Inl e \<Rightarrow> Inl e | Inr r \<Rightarrow> Inr (Some r))
       \<and> answer env2 a2 (fst (snd (answer env a ev))) = (Inr None, ev\<lparr>answered := True\<rparr>, [])
       \<and> answered (run_ops xs (fst (snd (answer env a ev))))"
proof -
  have "answered (ev\<lparr>answered := True\<rparr>)" by simp
  then have later: "answered (run_ops xs (ev\<lparr>answered := True\<rparr>))" by (rule answered_run_ops)
  show ?thesis
    using assms later
    by (simp add: answer_def answer_request_def event_id_def Let_def split: sum.splits)
qed

theorem answer_one_shot_latch_witness:
  "\<not> answered event0
   \<and> answer env_missing default_answer event0 =
       (Inl RPCError, event0\<lparr>answered := True\<rparr>,
        [(Invoke (SetBotCallbackAnswerRequest 42 0 False None None), event0\<lparr>answered := True\<rparr>)])
   \<and> answer env_ok default_answer (fst (snd (answer env_missing default_answer event0))) =
       (Inr None, event0\<lparr>answered := True\<rparr>, [])"
  using answer_one_shot_latch [of event0 env_missing default_answer env_ok default_answer "[]"]
  by (simp add: event0_def Event_init_def query0_def env_missing_def env_ok_def
        default_answer_def event_id_def answer_request_def answer_def Let_def)

section \<open>The message cache\<close>

lemma get_message_cached: "message ev = Some m \<Longrightarrow> get_message env ev = (Inr (Some m), ev, [])"
  by (simp add: get_message_def)

lemma get_message_fetch:
  assumes "message ev = None"
      and "(if is_channel env then get_input_chat env else Inr None) = Inr chat"
  shows "get_message env ev =
           (let l = (if is_channel env then [(GetInputChat, ev)] else [])
                    @ [(GetMessages chat (msg_id (query ev)), ev)] in
            case get_messages env chat (msg_id (query ev)) of
              Inl ValueError \<Rightarrow> (Inr None, ev, l)
            | Inl e \<Rightarrow> (Inl e, ev, l)
            | Inr m \<Rightarrow> (Inr m, ev\<lparr>message := m\<rparr>, l))"
  using assms by (auto simp: get_message_def Let_def split: if_splits sum.splits error.splits)

text \<open>
  Claim C5. With a message in the cache slot, \<open>get_message\<close> returns it and
  issues no call. With the slot empty and the chat resolved, a \<open>ValueError\<close> from
  the fetch makes it return \<open>None\<close> and raise nothing; a fetched message is
  returned and stored, and every later \<open>get_message\<close>, whatever the collaborators
  would answer then, returns that message with no call.
\<close>

theorem get_message_cache:
  "(message ev = Some m \<longrightarrow> get_message env ev = (Inr (Some m), ev, []))
   \<and> (message ev = None
        \<and> (if is_channel env then get_input_chat env else Inr None) = Inr chat
        \<and> get_messages env chat (message_id ev) = Inl ValueError
      \<longrightarrow> fst (get_message env ev) = Inr None)
   \<and> (message ev = None
        \<and> (if is_channel env then get_input_chat env else Inr None) = Inr chat
        \<and> get_messages env chat (message_id ev) = Inr (Some m)
      \<longrightarrow> fst (get_message env ev) = Inr (Some m)
          \<and> fst (snd (get_message env ev)) = ev\<lparr>message := Some m\<rparr>
          \<and> get_message env2 (fst (snd (get_message env ev))) =
              (Inr (Some m), ev\<lparr>message := Some m\<rparr>, []))"
  by (auto simp: get_message_cached get_message_fetch message_id_def Let_def)

theorem get_message_cache_witness:
  "message event0 = None
   \<and> get_messages env_ok None (message_id event0) = Inr (Some message0)
   \<and> fst (get_message env_ok event0) = Inr (Some message0)
   \<and> get_message env_missing (fst (snd (get_message env_ok event0))) =
       (Inr (Some message0), event0\<lparr>message := Some message0\<rparr>, [])
   \<and> get_messages env_missing None (message_id event0) = Inl ValueError
   \<and> fst (get_message env_missing event0) = Inr None"
  using get_message_cache [of event0 message0 env_ok None env_missing]
        get_message_cache [of event0 message0 env_missing None env_ok]
  by (simp add: event0_def Event_init_def query0_def env_ok_def env_missing_def message_id_def
        get_message_def)

text \<open>
  Claim C10. When the slot is empty and the fetch raises \<open>ValueError\<close>,
  \<open>get_message\<close> returns \<open>None\<close> and leaves the event as it was, the slot still
  empty. The next \<open>get_message\<close> on that event therefore does not answer from
  the cache: once its chat is resolved it issues the fetch for the same message
  id again.
\<close>

theorem get_message_failure_not_cached:
  assumes "message ev = None"
      and "(if is_channel env then get_input_chat env else Inr None) = Inr chat"
      and "get_messages env chat (message_id ev) = Inl ValueError"
      and "(if is_channel env2 then get_input_chat env2 else Inr None) = Inr chat2"
  shows "fst (get_message env ev) = Inr None
       \<and> fst (snd (get_message env ev)) = ev
       \<and> message (fst (snd (get_message env ev))) = None
       \<and> (GetMessages chat2 (message_id ev), ev)
            \<in> set (snd (snd (get_message env2 (fst (snd (get_message env ev))))))"
proof -
  have first: "get_message env ev =
      (Inr None, ev, (if is_channel env then [(GetInputChat, ev)] else [])
                     @ [(GetMessages chat (msg_id (query ev)), ev)])"
    using assms(1-3) by (simp add: get_message_fetch message_id_def Let_def)
  have second: "(GetMessages chat2 (message_id ev), ev) \<in> set (snd (snd (get_message env2 ev)))"
    using assms(1,4)
    by (auto simp: get_message_fetch message_id_def Let_def split: sum.splits error.splits)
  show ?thesis using first second assms(1) by simp
qed

theorem get_message_failure_not_cached_witness:
  "message event0 = None
   \<and> get_messages env_missing None (message_id event0) = Inl ValueError
   \<and> get_message env_missing event0 = (Inr None, event0, [(GetMessages None 7, event0)])
   \<and> get_message env_ok (fst (snd (get_message env_missing event0))) =
       (Inr (Some message0), event0\<lparr>message := Some message0\<rparr>, [(GetMessages None 7, event0)])"
  using get_message_failure_not_cached [of event0 env_missing None env_ok None]
  by (simp add: event0_def Event_init_def query0_def env_ok_def env_missing_def message_id_def
        get_message_def)

section \<open>The resolution chain\<close>

lemma get_message_no_raise:
  assumes "lookup_failure_only (get_input_chat env)"
      and "\<And>chat. lookup_failure_only (get_messages env chat (msg_id (query ev)))"
  shows "\<exists>r. fst (get_message env ev) = Inr r"
proof (cases "message ev")
  case (Some m)
  then show ?thesis by (simp add: get_message_def)
next
  case None
  show ?thesis
  proof (cases "if is_channel env then get_input_chat env else Inr None")
    case (Inl e)
    then have "e = ValueError" using assms(1)
      by (auto simp: lookup_failure_only_def split: if_splits)
    then show ?thesis using None Inl
      by (auto simp: get_message_def split: if_splits)
  next
    case (Inr chat)
    have "lookup_failure_only (get_messages env chat (msg_id (query ev)))" by (rule assms(2))
    then show ?thesis using None Inr
      by (auto simp: get_message_fetch Let_def lookup_failure_only_def
               split: sum.splits error.splits)
  qed
qed

text \<open>
  Claim C3. The chain starts with the snapshot. Without an entry for the sender
  id it returns at once: no exception, no call, the sender slot empty and the
  input sender slot as it was (empty on a fresh event). With an entry, and an
  input peer from the chat context that passes the access hash test, it stops
  there with both slots filled and an empty call log, so the session is never
  asked.
\<close>

theorem refetch_sender_order:
  "(entities ev (sender_id ev) = None \<longrightarrow>
      refetch_sender env ev = (Inr (), ev\<lparr>sender := None\<rparr>, [])
      \<and> input_sender (fst (snd (refetch_sender env ev))) = input_sender ev)
   \<and> (entities ev (sender_id ev) = Some e \<and> get_input_peer env = Inr p \<and> \<not> lacks_access_hash p \<longrightarrow>
      refetch_sender env ev = (Inr (), ev\<lparr>sender := Some e, input_sender := Some p\<rparr>, []))"
  by (simp add: refetch_sender_def Let_def)

theorem refetch_sender_order_witness:
  "entities (Event_init query0) (sender_id (Event_init query0)) = None
   \<and> refetch_sender env_ok (Event_init query0) = (Inr (), Event_init query0, [])
   \<and> entities event0 (sender_id event0) = Some (User 55 0)
   \<and> get_input_peer env_hash = Inr (InputPeerUser 55 999)
   \<and> \<not> lacks_access_hash (InputPeerUser 55 999)
   \<and> refetch_sender env_hash event0 =
       (Inr (), event0\<lparr>sender := Some (User 55 0), input_sender := Some (InputPeerUser 55 999)\<rparr>, [])"
  using refetch_sender_order [of "Event_init query0" env_ok "User 55 0" "InputPeerUser 55 999"]
        refetch_sender_order [of event0 env_hash "User 55 0" "InputPeerUser 55 999"]
  by (simp add: event0_def Event_init_def query0_def env_ok_def env_hash_def
        lacks_access_hash_def)

lemma get_message_slots:
  "sender (fst (snd (get_message env ev))) = sender ev
   \<and> input_sender (fst (snd (get_message env ev))) = input_sender ev"
  by (auto simp: get_message_def Let_def split: option.splits sum.splits error.splits)

lemma refetch_sender_fallback:
  assumes "entities ev (sender_id ev) = Some e"
      and "get_input_peer env = Inr p"
      and "lacks_access_hash p"
      and "session_get_input_entity env (sender_id ev) = Inl ValueError"
  shows "refetch_sender env ev =
           (case get_message env (ev\<lparr>sender := Some e, input_sender := Some p\<rparr>) of
              (Inl err, ev3, lm) \<Rightarrow>
                (Inl err, ev3,
                 (SessionGetInputEntity (sender_id ev),
                  ev\<lparr>sender := Some e, input_sender := Some p\<rparr>) # lm)
            | (Inr None, ev3, lm) \<Rightarrow>
                (Inr (), ev3,
                 (SessionGetInputEntity (sender_id ev),
                  ev\<lparr>sender := Some e, input_sender := Some p\<rparr>) # lm)
            | (Inr (Some m), ev3, lm) \<Rightarrow>
                (Inr (), ev3\<lparr>sender := m_sender m, input_sender := m_input_sender m\<rparr>,
                 (SessionGetInputEntity (sender_id ev),
                  ev\<lparr>sender := Some e, input_sender := Some p\<rparr>) # lm))"
  using assms
  by (auto simp: refetch_sender_def Let_def split: prod.splits sum.splits option.splits)

text \<open>
  Claim C4, as stated, fails. With the sender in the snapshot and the chat missing
  from it, \<open>utils.get_input_peer\<close> raises outside any \<open>try\<close> and the \<open>TypeError\<close>
  reaches the caller. A fetch that fails with anything but \<open>ValueError\<close> reaches
  the caller too. And when the session and the fetch both fail with
  \<open>ValueError\<close>, the chain ends with both slots filled, from the snapshot and the
  chat context, not empty.
\<close>

theorem refetch_sender_raises_counterexample:
  "fst (refetch_sender env_nochat event0) = Inl TypeError
   \<and> fst (refetch_sender env_rpc event0) = Inl RPCError
   \<and> sender (fst (snd (refetch_sender env_missing event0))) = Some (User 55 0)
   \<and> input_sender (fst (snd (refetch_sender env_missing event0))) = Some (InputPeerUser 55 0)"
  by (simp add: refetch_sender_def get_message_def Let_def lacks_access_hash_def
        event0_def Event_init_def query0_def env_ok_def env_nochat_def env_rpc_def
        env_missing_def)

text \<open>
  Claim C4, amended. When the session lookup, the chat resolution and the message
  fetch each either return or fail with the lookup failure \<open>ValueError\<close>, the
  chain raises exactly what \<open>utils.get_input_peer\<close> raises on the chat of an
  event whose sender is in the snapshot, and returns normally otherwise. An
  absent sender ends the chain with the sender slot empty and no call. With the
  sender found and an input peer that lacks its hash: a session answer fills the
  input sender slot; a \<open>ValueError\<close> from the session falls through to
  \<open>get_message\<close>, whose calls follow the session's in the log; a message then
  obtained supplies both slots; with no message the slots keep the snapshot's
  entity and the chat context's input peer; an exception of \<open>get_message\<close>, and
  any other exception of the session, reaches the caller.
\<close>

theorem refetch_sender_lookup_failures:
  "(lookup_failure_only (session_get_input_entity env (sender_id ev))
      \<and> lookup_failure_only (get_input_chat env)
      \<and> (\<forall>chat. lookup_failure_only (get_messages env chat (message_id ev)))
    \<longrightarrow> fst (refetch_sender env ev) =
          (case entities ev (sender_id ev) of
             None \<Rightarrow> Inr ()
           | Some _ \<Rightarrow> (case get_input_peer env of Inl err \<Rightarrow> Inl err | Inr _ \<Rightarrow> Inr ())))
   \<and> (entities ev (sender_id ev) = None
    \<longrightarrow> refetch_sender env ev = (Inr (), ev\<lparr>sender := None\<rparr>, []))
   \<and> (entities ev (sender_id ev) = Some e \<and> get_input_peer env = Inr p \<and> lacks_access_hash p
        \<and> session_get_input_entity env (sender_id ev) = Inr p'
    \<longrightarrow> refetch_sender env ev =
          (Inr (), ev\<lparr>sender := Some e, input_sender := Some p'\<rparr>,
           [(SessionGetInputEntity (sender_id ev), ev\<lparr>sender := Some e, input_sender := Some p\<rparr>)]))
   \<and> (entities ev (sender_id ev) = Some e \<and> get_input_peer env = Inr p \<and> lacks_access_hash p
        \<and> session_get_input_entity env (sender_id ev) = Inl ValueError
    \<longrightarrow> snd (snd (refetch_sender env ev)) =
          (SessionGetInputEntity (sender_id ev), ev\<lparr>sender := Some e, input_sender := Some p\<rparr>)
            # snd (snd (get_message env (ev\<lparr>sender := Some e, input_sender := Some p\<rparr>)))
        \<and> (fst (get_message env (ev\<lparr>sender := Some e, input_sender := Some p\<rparr>)) = Inr (Some m)
            \<longrightarrow> fst (refetch_sender env ev) = Inr ()
              \<and> sender (fst (snd (refetch_sender env ev))) = m_sender m
              \<and> input_sender (fst (snd (refetch_sender env ev))) = m_input_sender m)
        \<and> (fst (get_message env (ev\<lparr>sender := Some e, input_sender := Some p\<rparr>)) = Inr None
            \<longrightarrow> fst (refetch_sender env ev) = Inr ()
              \<and> sender (fst (snd (refetch_sender env ev))) = Some e
              \<and> input_sender (fst (snd (refetch_sender env ev))) = Some p)
        \<and> (fst (get_message env (ev\<lparr>sender := Some e, input_sender := Some p\<rparr>)) = Inl err
            \<longrightarrow> fst (refetch_sender env ev) = Inl err))
   \<and> (entities ev (sender_id ev) = Some e \<and> get_input_peer env = Inr p \<and> lacks_access_hash p
        \<and> session_get_input_entity env (sender_id ev) = Inl err \<and> err \<noteq> ValueError
    \<longrightarrow> fst (refetch_sender env ev) = Inl err)"
proof -
  have raises: "fst (refetch_sender env ev) =
          (case entities ev (sender_id ev) of
             None \<Rightarrow> Inr ()
           | Some _ \<Rightarrow> (case get_input_peer env of Inl err \<Rightarrow> Inl err | Inr _ \<Rightarrow> Inr ()))"
    if h: "lookup_failure_only (session_get_input_entity env (sender_id ev))"
          "lookup_failure_only (get_input_chat env)"
          "\<forall>chat. lookup_failure_only (get_messages env chat (message_id ev))"
  proof (cases "entities ev (sender_id ev)")
    case None
    then show ?thesis by (simp add: refetch_sender_def Let_def)
  next
    case (Some e')
    show ?thesis
    proof (cases "get_input_peer env")
      case (Inl x)
      then show ?thesis using Some by (simp add: refetch_sender_def Let_def)
    next
      case (Inr q)
      show ?thesis
      proof (cases "lacks_access_hash q")
        case False
        then show ?thesis using Some Inr by (simp add: refetch_sender_def Let_def)
      next
        case True
        define ev2 where "ev2 = ev\<lparr>sender := Some e', input_sender := Some q\<rparr>"
        have "msg_id (query ev2) = message_id ev" by (simp add: ev2_def message_id_def)
        then have "\<exists>r. fst (get_message env ev2) = Inr r"
          using h(2,3) by (intro get_message_no_raise) simp_all
        then obtain r where r: "fst (get_message env ev2) = Inr r" by blast
        show ?thesis
        proof (cases "session_get_input_entity env (sender_id ev)")
          case (Inr q')
          then show ?thesis using Some \<open>get_input_peer env = Inr q\<close> True
            by (simp add: refetch_sender_def Let_def)
        next
          case (Inl x)
          then have "x = ValueError" using h(1) by (simp add: lookup_failure_only_def)
          then show ?thesis using Some \<open>get_input_peer env = Inr q\<close> True Inl r
            by (cases "get_message env ev2"; cases r)
               (simp_all add: refetch_sender_fallback ev2_def)
        qed
      qed
    qed
  qed
  have absent: "refetch_sender env ev = (Inr (), ev\<lparr>sender := None\<rparr>, [])"
    if "entities ev (sender_id ev) = None"
    using that by (simp add: refetch_sender_def Let_def)
  have session: "refetch_sender env ev =
          (Inr (), ev\<lparr>sender := Some e, input_sender := Some p'\<rparr>,
           [(SessionGetInputEntity (sender_id ev), ev\<lparr>sender := Some e, input_sender := Some p\<rparr>)])"
    if "entities ev (sender_id ev) = Some e" "get_input_peer env = Inr p" "lacks_access_hash p"
       "session_get_input_entity env (sender_id ev) = Inr p'"
    using that by (simp add: refetch_sender_def Let_def)
  have other: "fst (refetch_sender env ev) = Inl err"
    if "entities ev (sender_id ev) = Some e" "get_input_peer env = Inr p" "lacks_access_hash p"
       "session_get_input_entity env (sender_id ev) = Inl err" "err \<noteq> ValueError"
    using that by (cases err) (simp_all add: refetch_sender_def Let_def)
  have fallback:
    "snd (snd (refetch_sender env ev)) =
          (SessionGetInputEntity (sender_id ev), ev\<lparr>sender := Some e, input_sender := Some p\<rparr>)
            # snd (snd (get_message env (ev\<lparr>sender := Some e, input_sender := Some p\<rparr>)))
        \<and> (fst (get_message env (ev\<lparr>sender := Some e, input_sender := Some p\<rparr>)) = Inr (Some m)
            \<longrightarrow> fst (refetch_sender env ev) = Inr ()
              \<and> sender (fst (snd (refetch_sender env ev))) = m_sender m
              \<and> input_sender (fst (snd (refetch_sender env ev))) = m_input_sender m)
        \<and> (fst (get_message env (ev\<lparr>sender := Some e, input_sender := Some p\<rparr>)) = Inr None
            \<longrightarrow> fst (refetch_sender env ev) = Inr ()
              \<and> sender (fst (snd (refetch_sender env ev))) = Some e
              \<and> input_sender (fst (snd (refetch_sender env ev))) = Some p)
        \<and> (fst (get_message env (ev\<lparr>sender := Some e, input_sender := Some p\<rparr>)) = Inl err
            \<longrightarrow> fst (refetch_sender env ev) = Inl err)"
    if h: "entities ev (sender_id ev) = Some e" "get_input_peer env = Inr p" "lacks_access_hash p"
          "session_get_input_entity env (sender_id ev) = Inl ValueError"
  proof -
    define ev2 where "ev2 = ev\<lparr>sender := Some e, input_sender := Some p\<rparr>"
    obtain r ev3 lm where g: "get_message env ev2 = (r, ev3, lm)"
      by (cases "get_message env ev2") auto
    have slots: "sender ev3 = Some e" "input_sender ev3 = Some p"
      using get_message_slots [of env ev2] g by (simp_all add: ev2_def)
    show ?thesis
      unfolding refetch_sender_fallback [OF h] ev2_def [symmetric]
      using g slots by (auto split: sum.splits option.splits)
  qed
  show ?thesis using raises absent session other fallback by blast
qed

theorem refetch_sender_lookup_failures_witness:
  "lookup_failure_only (session_get_input_entity env_missing (sender_id event0))
   \<and> lookup_failure_only (get_input_chat env_missing)
   \<and> (\<forall>chat. lookup_failure_only (get_messages env_missing chat (message_id event0)))
   \<and> entities event0 (sender_id event0) = Some (User 55 0)
   \<and> get_input_peer env_missing = Inr (InputPeerUser 55 0)
   \<and> lacks_access_hash (InputPeerUser 55 0)
   \<and> session_get_input_entity env_missing (sender_id event0) = Inl ValueError
   \<and> refetch_sender env_missing event0 =
       (Inr (), event0\<lparr>sender := Some (User 55 0), input_sender := Some (InputPeerUser 55 0)\<rparr>,
        [(SessionGetInputEntity 55,
          event0\<lparr>sender := Some (User 55 0), input_sender := Some (InputPeerUser 55 0)\<rparr>),
         (GetMessages None 7,
          event0\<lparr>sender := Some (User 55 0), input_sender := Some (InputPeerUser 55 0)\<rparr>)])
   \<and> refetch_sender env_ok event0 =
       (Inr (), event0\<lparr>sender := Some (User 55 999), input_sender := Some (InputPeerUser 55 999),
                       message := Some message0\<rparr>,
        [(SessionGetInputEntity 55,
          event0\<lparr>sender := Some (User 55 0), input_sender := Some (InputPeerUser 55 0)\<rparr>),
         (GetMessages None 7,
          event0\<lparr>sender := Some (User 55 0), input_sender := Some (InputPeerUser 55 0)\<rparr>)])
   \<and> refetch_sender env_cached event0 =
       (Inr (), event0\<lparr>sender := Some (User 55 0), input_sender := Some (InputPeerUser 55 999)\<rparr>,
        [(SessionGetInputEntity 55,
          event0\<lparr>sender := Some (User 55 0), input_sender := Some (InputPeerUser 55 0)\<rparr>)])
   \<and> fst (refetch_sender env_nochat event0) = Inl TypeError"
  using refetch_sender_lookup_failures
          [of env_missing event0 "User 55 0" "InputPeerUser 55 0" "InputPeerUser 55 999" message0 RPCError]
        refetch_sender_lookup_failures
          [of env_ok event0 "User 55 0" "InputPeerUser 55 0" "InputPeerUser 55 999" message0 RPCError]
        refetch_sender_lookup_failures
          [of env_cached event0 "User 55 0" "InputPeerUser 55 0" "InputPeerUser 55 999" message0 RPCError]
        refetch_sender_lookup_failures
          [of env_nochat event0 "User 55 0" "InputPeerUser 55 0" "InputPeerUser 55 999" message0 RPCError]
  by (simp add: refetch_sender_def get_message_def Let_def lacks_access_hash_def
        lookup_failure_only_def message_id_def event0_def Event_init_def query0_def
        env_ok_def env_missing_def env_cached_def env_nochat_def message0_def)

section \<open>The lazy slots\<close>

lemma get_message_keeps: "message ev = Some m \<Longrightarrow> message (fst (snd (get_message env ev))) = Some m"
  by (simp add: get_message_def)

lemma refetch_sender_keeps:
  assumes "message ev = Some m"
  shows "message (fst (snd (refetch_sender env ev))) = Some m"
proof -
  have "get_message env (ev\<lparr>sender := s, input_sender := i\<rparr>) =
          (Inr (Some m), ev\<lparr>sender := s, input_sender := i\<rparr>, [])" for s i
    using assms by (simp add: get_message_def)
  then show ?thesis using assms
    by (simp add: refetch_sender_def Let_def split: option.splits sum.splits error.splits)
qed

lemma apply_op_keeps: "message ev = Some m \<Longrightarrow> message (apply_op x ev) = Some m"
proof (cases x)
  case (OpGetMessage env)
  then show "message ev = Some m \<Longrightarrow> ?thesis" by (simp add: get_message_keeps)
next
  case (OpRefetchSender env)
  then show "message ev = Some m \<Longrightarrow> ?thesis" by (simp add: refetch_sender_keeps)
next
  case (OpAnswer env a)
  then show "message ev = Some m \<Longrightarrow> ?thesis"
    by (simp add: answer_def Let_def split: sum.splits)
next
  case (OpRespond env task_ran args kw)
  then show "message ev = Some m \<Longrightarrow> ?thesis"
    by (simp add: respond_def run_created_task_def answer_def Let_def split: sum.splits)
next
  case (OpReply env task_ran args kw)
  then show "message ev = Some m \<Longrightarrow> ?thesis"
    by (simp add: reply_def run_created_task_def answer_def Let_def split: sum.splits)
next
  case (OpEdit env task_ran args kw)
  then show "message ev = Some m \<Longrightarrow> ?thesis"
    by (simp add: edit_def run_created_task_def answer_def Let_def split: sum.splits)
next
  case (OpDelete env task_ran args kw)
  then show "message ev = Some m \<Longrightarrow> ?thesis"
    by (simp add: delete_def run_created_task_def answer_def Let_def split: sum.splits)
qed

lemma run_ops_keeps: "message ev = Some m \<Longrightarrow> message (run_ops xs ev) = Some m"
  by (induction xs arbitrary: ev) (simp_all add: apply_op_keeps)

text \<open>
  Claim C2, as stated, fails for the sender slots. A first run that falls back to
  the message leaves the message's sender \<open>User 55 999\<close>; a second run, with the
  session now answering, leaves the snapshot's \<open>User 55 0\<close>. A first run answered
  by the session leaves \<open>InputPeerUser 55 999\<close>; a second run, with the session
  failing and the message gone, leaves the chat context's \<open>InputPeerUser 55 0\<close>.
\<close>

theorem slots_overwritten_counterexample:
  "sender (run_ops [OpRefetchSender env_ok] event0) = Some (User 55 999)
   \<and> sender (run_ops [OpRefetchSender env_ok, OpRefetchSender env_cached] event0) = Some (User 55 0)
   \<and> input_sender (run_ops [OpRefetchSender env_cached] event0) = Some (InputPeerUser 55 999)
   \<and> input_sender (run_ops [OpRefetchSender env_cached, OpRefetchSender env_missing] event0)
       = Some (InputPeerUser 55 0)"
  by (simp add: refetch_sender_def get_message_def Let_def lacks_access_hash_def
        event0_def Event_init_def query0_def env_ok_def env_cached_def env_missing_def message0_def)

text \<open>
  Claim C2, amended. Once the message slot holds a message, no sequence of
  operations changes it. The sender slot has no such protection: a run of
  \<open>_refetch_sender\<close> assigns it anew from the snapshot, so the run is the same
  whatever the slot held before.
\<close>

theorem message_slot_written_once:
  "(message ev = Some m \<longrightarrow> message (run_ops xs ev) = Some m)
   \<and> refetch_sender env (ev\<lparr>sender := s\<rparr>) = refetch_sender env ev"
  by (simp add: run_ops_keeps refetch_sender_def)

theorem message_slot_written_once_witness:
  "message (run_ops [OpGetMessage env_ok] event0) = Some message0
   \<and> message (run_ops [OpRefetchSender env_missing, OpGetMessage env_missing, OpAnswer env_missing default_answer]
        (run_ops [OpGetMessage env_ok] event0)) = Some message0"
  using message_slot_written_once [of "run_ops [OpGetMessage env_ok] event0" message0
          "[OpRefetchSender env_missing, OpGetMessage env_missing, OpAnswer env_missing default_answer]"]
  by (simp add: get_message_def Let_def
        event0_def Event_init_def query0_def env_ok_def env_missing_def)

section \<open>The response actions\<close>

lemma actions_create_task_first:
  "hd (snd (snd (respond env args kw ev))) = (CreateTaskAnswer default_answer, ev)
   \<and> hd (snd (snd (reply env args kw ev))) = (CreateTaskAnswer default_answer, ev)
   \<and> hd (snd (snd (edit env args kw ev))) = (CreateTaskAnswer default_answer, ev)
   \<and> hd (snd (snd (delete env args kw ev))) = (CreateTaskAnswer default_answer, ev)"
  by (simp add: respond_def reply_def edit_def delete_def Let_def split: sum.splits)

text \<open>
  Claim C7. \<open>reply\<close> is \<open>respond\<close> on the keyword arguments in which \<open>reply_to\<close>
  has been set to the event's message id, whatever the caller supplied for it.
  With the input chat resolved, the message goes to that chat with those
  arguments, after the answer task has been created.
\<close>

theorem reply_is_respond_with_reply_to:
  "reply env args kw ev = respond env args (AList.update ''reply_to'' (PInt (message_id ev)) kw) ev
   \<and> map_of (AList.update ''reply_to'' (PInt (message_id ev)) kw) ''reply_to''
       = Some (PInt (message_id ev))
   \<and> (get_input_chat env = Inr chat \<longrightarrow>
        reply env args kw ev =
          (send_message env chat args (AList.update ''reply_to'' (PInt (message_id ev)) kw), ev,
           [(CreateTaskAnswer default_answer, ev), (GetInputChat, ev),
            (SendMessage chat args (AList.update ''reply_to'' (PInt (message_id ev)) kw), ev)]))"
  by (simp add: reply_def respond_def message_id_def Let_def update_conv')

theorem reply_is_respond_with_reply_to_witness:
  "get_input_chat env_ok = Inr (Some (InputPeerChat 100))
   \<and> reply env_ok [PStr ''ok''] [(''reply_to'', PInt 3)] event0 =
       (Inr sent0, event0,
        [(CreateTaskAnswer \<lparr> a_message = None, a_cache_time = 0, a_url = None, a_alert = False \<rparr>, event0),
         (GetInputChat, event0),
         (SendMessage (Some (InputPeerChat 100)) [PStr ''ok''] [(''reply_to'', PInt 7)], event0)])"
  using reply_is_respond_with_reply_to
          [of env_ok "[PStr ''ok'']" "[(''reply_to'', PInt 3)]" event0 "Some (InputPeerChat 100)"]
  by (simp add: reply_def respond_def Let_def env_ok_def event0_def Event_init_def query0_def
        message_id_def default_answer_def)

text \<open>
  Claim C8. With the input chat resolved, \<open>delete\<close> issues one delete request,
  for the list holding only the event's message id; and no delete request it
  ever issues carries any other list.
\<close>

theorem delete_single_message:
  "(get_input_chat env = Inr chat \<longrightarrow>
      snd (snd (delete env args kw ev)) =
        [(CreateTaskAnswer default_answer, ev), (GetInputChat, ev),
         (DeleteMessages chat [message_id ev] args kw, ev)])
   \<and> (\<forall>c ids a k s. (DeleteMessages c ids a k, s) \<in> set (snd (snd (delete env args kw ev)))
        \<longrightarrow> ids = [message_id ev])"
  by (auto simp: delete_def message_id_def Let_def split: sum.splits)

theorem delete_single_message_witness:
  "get_input_chat env_ok = Inr (Some (InputPeerChat 100))
   \<and> delete env_ok [] [] event0 =
       (Inr 1, event0,
        [(CreateTaskAnswer default_answer, event0), (GetInputChat, event0),
         (DeleteMessages (Some (InputPeerChat 100)) [7] [] [], event0)])"
  using delete_single_message [of env_ok "Some (InputPeerChat 100)" "[]" "[]" event0]
  by (simp add: delete_def env_ok_def event0_def Event_init_def query0_def message_id_def Let_def)

section \<open>Building events\<close>

text \<open>
  Claim C9. \<open>build\<close> yields an event only from an \<open>UpdateBotCallbackQuery\<close>, where
  its outcome is the filter's on the new event with the update's entities. For
  every other update it returns \<open>None\<close>, without raising and without consulting
  the filter.
\<close>

theorem build_only_callback_query:
  "(build f upd = Inr (Some ev) \<longrightarrow> (\<exists>q ents. upd = UpdateBotCallbackQuery q ents))
   \<and> ((\<forall>q ents. upd \<noteq> UpdateBotCallbackQuery q ents) \<longrightarrow> build f upd = Inr None)
   \<and> build f (UpdateBotCallbackQuery q ents) = f ((Event_init q)\<lparr>entities := ents\<rparr>)"
  by (cases upd) (simp_all add: build_def)

theorem build_only_callback_query_witness:
  "build filter_all (UpdateBotCallbackQuery query0 [55 \<mapsto> User 55 0]) = Inr (Some event0)
   \<and> build filter_all (UpdateNewMessage message0 [55 \<mapsto> User 55 0]) = Inr None
   \<and> build filter_all (UpdateOther ''UpdateUserTyping'' Map.empty) = Inr None"
  using build_only_callback_query
          [of filter_all "UpdateBotCallbackQuery query0 [55 \<mapsto> User 55 0]" event0 query0 "[55 \<mapsto> User 55 0]"]
        build_only_callback_query
          [of filter_all "UpdateNewMessage message0 [55 \<mapsto> User 55 0]" event0 query0 "[55 \<mapsto> User 55 0]"]
        build_only_callback_query
          [of filter_all "UpdateOther ''UpdateUserTyping'' Map.empty" event0 query0 "[55 \<mapsto> User 55 0]"]
  by (simp add: filter_all_def event0_def)

end
